theory Spec2Isabelle
  imports Main
begin

section \<open>The shocked client: endpoint, sockets, timers, trackers\<close>

text \<open>
  A shallow embedding of \<^verbatim>\<open>packages/client/src/createClient.js\<close> and of the demo
  chat API \<^verbatim>\<open>packages/demo/src/chat/server/api.js\<close>.

  The client is a closure over the variables \<^verbatim>\<open>host\<close>, \<^verbatim>\<open>trackers\<close>,
  \<^verbatim>\<open>reconnectTimerHandle\<close>, \<^verbatim>\<open>socket\<close> and \<^verbatim>\<open>url\<close>. They become the fields of a
  record that every method takes and returns. The objects the closure only holds
  references to live in explicit stores of the same record: every WebSocket ever
  constructed (\<open>sockets\<close>, addressed by position), the host's pending timeouts
  (\<open>timers\<close>) and the lifecycle events handed to the event emitter (\<open>emitted\<close>).
  The listeners that \<^verbatim>\<open>on\<close> and \<^verbatim>\<open>off\<close> register with the emitter are not
  modelled: \<open>emitted\<close> is what \<^verbatim>\<open>eventManager.emit\<close> was called with, in order.
\<close>

subsection \<open>Errors\<close>

datatype error =
    InvalidEndpoint string
  | DuplicateTracker string
  | UnknownRoom string
  | TypeError string

subsection \<open>Endpoint\<close>

text \<open>\<^verbatim>\<open>String.prototype.startsWith\<close> and \<^verbatim>\<open>substr(n)\<close> on a string of code units.\<close>

definition startsWith :: "string \<Rightarrow> string \<Rightarrow> bool" where
  "startsWith s p = (take (length p) s = p)"

definition substr :: "string \<Rightarrow> nat \<Rightarrow> string" where
  "substr s n = drop n s"

definition getHost :: "string \<Rightarrow> error + string" where
  "getHost endpoint =
     (if startsWith endpoint ''https:'' \<or> startsWith endpoint ''http:''
      then Inr (''ws'' @ substr endpoint 4)
      else if startsWith endpoint ''wss:'' \<or> startsWith endpoint ''ws:''
      then Inr endpoint
      else Inl (InvalidEndpoint endpoint))"

subsection \<open>Collaborators outside these sources\<close>

text \<open>
  Modelled from the spec: the codec (\<^verbatim>\<open>shocked-common\<close>) is not part of these
  sources. Its outbound surface is "one control intent type, a timestamp-response
  (trackerId, epochMillis); all other outbound frames are opaque payloads"; its inbound
  surface is the six event tags, one parser callback each.
\<close>

datatype frame =
    PKT_TRACKER_TIMESTAMP string int
  | Payload string

datatype protocol_event =
    TrackerOpen string
  | TrackerClose string nat string
  | TrackerAction string string int
  | TrackerApiResponse string int bool string string
  | TrackerEmit string string string
  | TrackerTimestampRequest string

text \<open>
  The WebSocket class is a parameter of \<^verbatim>\<open>createClient\<close>. What the client reads of a
  socket is its \<^verbatim>\<open>url\<close> and its \<^verbatim>\<open>readyState\<close>; what it does to one is
  \<^verbatim>\<open>close()\<close> and \<^verbatim>\<open>send(data)\<close>. \<open>ws_url\<close> is what the socket answers to
  \<^verbatim>\<open>socket.url\<close>; \<open>written\<close> records the frames handed to \<^verbatim>\<open>send\<close> while the
  socket was open.
\<close>

datatype ready_state = CONNECTING | OPEN | CLOSING | CLOSED

record websocket =
  ws_url :: string
  readyState :: ready_state
  written :: "frame list"

text \<open>
  Modelled from the spec: \<^verbatim>\<open>TrackerClient\<close> is not part of these sources. A tracker is
  an opaque handler object; \<open>received\<close> records, in order, the calls the client made on
  it. The client reads two of its properties, \<^verbatim>\<open>group\<close> (in \<^verbatim>\<open>findTracker\<close>) and
  \<^verbatim>\<open>trackerId\<close> (in \<^verbatim>\<open>createTracker\<close>); \<open>None\<close> is JavaScript's
  \<^verbatim>\<open>undefined\<close>. The constructor is a parameter of \<open>createTracker\<close> below.
\<close>

datatype tracker_call =
    OnConnect
  | OnDisconnect
  | OnOpen string
  | OnClose nat string
  | OnAction string int
  | OnApiResponse int bool string string
  | Emit string string

record tracker =
  group :: "string option"
  trackerId :: "string option"
  store :: nat
  params :: "(string \<times> string) list"
  received :: "tracker_call list"

datatype lifecycle = EvConnect | EvDisconnect nat

subsection \<open>The client's state\<close>

record client =
  host :: string
  trackers :: "tracker list"
  reconnectTimerHandle :: "nat option"
  socket :: "nat option"
  url :: "string option"
  sockets :: "websocket list"
  timers :: "(nat \<times> nat) list"
  next_timer :: nat
  emitted :: "lifecycle list"
  warned :: "string list"

definition RECONNECT_INTERVAL :: nat where
  "RECONNECT_INTERVAL = 2500"

text \<open>
  The closure's variables as \<^verbatim>\<open>createClient\<close> initialises them: no tracker, no
  timer, no socket, no url. The host's first timeout handle is 1.
\<close>

definition fresh :: "string \<Rightarrow> client" where
  "fresh h = \<lparr>host = h, trackers = [], reconnectTimerHandle = None, socket = None,
              url = None, sockets = [], timers = [], next_timer = 1, emitted = [],
              warned = []\<rparr>"

definition createClient :: "string \<Rightarrow> error + client" where
  "createClient endpoint =
     (case getHost endpoint of
        Inl e \<Rightarrow> Inl e
      | Inr h \<Rightarrow> Inr (fresh h))"

subsection \<open>Timers of the host\<close>

text \<open>
  \<^verbatim>\<open>setTimeout\<close> returns a handle greater than zero and keeps the timeout pending, with
  its delay, until it fires or is cleared. \<^verbatim>\<open>if (reconnectTimerHandle)\<close> is a truthiness
  test: \<^verbatim>\<open>null\<close> and \<^verbatim>\<open>0\<close> fail it.
\<close>

definition setTimeout :: "nat \<Rightarrow> client \<Rightarrow> nat \<times> client" where
  "setTimeout interval s =
     (next_timer s,
      s\<lparr>timers := timers s @ [(next_timer s, interval)], next_timer := Suc (next_timer s)\<rparr>)"

definition clearTimeout :: "nat \<Rightarrow> client \<Rightarrow> client" where
  "clearTimeout h s = s\<lparr>timers := filter (\<lambda>t. fst t \<noteq> h) (timers s)\<rparr>"

definition truthy :: "nat option \<Rightarrow> bool" where
  "truthy h = (case h of None \<Rightarrow> False | Some n \<Rightarrow> n \<noteq> 0)"

definition setupReconnection :: "nat \<Rightarrow> client \<Rightarrow> client" where
  "setupReconnection interval s =
     (if truthy (reconnectTimerHandle s) then s
      else (case setTimeout interval s of
              (h, s') \<Rightarrow> s'\<lparr>reconnectTimerHandle := Some h\<rparr>))"

definition clearRetry :: "client \<Rightarrow> client" where
  "clearRetry s =
     (case reconnectTimerHandle s of
        None \<Rightarrow> s
      | Some h \<Rightarrow> if h \<noteq> 0 then (clearTimeout h s)\<lparr>reconnectTimerHandle := None\<rparr> else s)"

subsection \<open>Sockets of the host\<close>

definition upd_at :: "nat \<Rightarrow> ('a \<Rightarrow> 'a) \<Rightarrow> 'a list \<Rightarrow> 'a list" where
  "upd_at k f xs = (if k < length xs then xs[k := f (xs ! k)] else xs)"

text \<open>
  A socket does not answer \<^verbatim>\<open>socket.url\<close> with the string it was constructed with
  but with the serialised form of the URL parsed from it (the browsers' WebSocket, and
  the \<^verbatim>\<open>ws\<close> package with the \<^verbatim>\<open>href\<close> of the parsed URL). Of that serialisation
  the model has the part that touches addresses as \<^verbatim>\<open>createClient\<close> receives them:
  the scheme and the host are put in lower case; user information before an
  \<^verbatim>\<open>@\<close>, the port, the path and what follows it are kept as written. Default ports,
  dot segments and escaping are not modelled.
\<close>

definition lower :: "char \<Rightarrow> char" where
  "lower c =
     (case map_of (zip ''ABCDEFGHIJKLMNOPQRSTUVWXYZ'' ''abcdefghijklmnopqrstuvwxyz'') c of
        None \<Rightarrow> c
      | Some l \<Rightarrow> l)"

definition lower_host :: "string \<Rightarrow> string" where
  "lower_host a =
     (if CHR ''@'' \<in> set a
      then rev (dropWhile (\<lambda>c. c \<noteq> CHR ''@'') (rev a)) @
           map lower (rev (takeWhile (\<lambda>c. c \<noteq> CHR ''@'') (rev a)))
      else map lower a)"

definition serialise :: "string \<Rightarrow> string" where
  "serialise u =
     (let scheme = takeWhile (\<lambda>c. c \<noteq> CHR '':'') u;
          rest = drop (length scheme) u;
          after = drop 3 rest;
          authority = takeWhile (\<lambda>c. c \<noteq> CHR ''/'' \<and> c \<noteq> CHR ''?'' \<and> c \<noteq> CHR ''#'') after
      in if take 3 rest = ''://''
         then map lower scheme @ ''://'' @ lower_host authority @ drop (length authority) after
         else u)"

definition ws_new :: "string \<Rightarrow> client \<Rightarrow> nat \<times> client" where
  "ws_new u s =
     (length (sockets s),
      s\<lparr>sockets := sockets s @
          [\<lparr>ws_url = serialise u, readyState = CONNECTING, written = []\<rparr>]\<rparr>)"

text \<open>\<^verbatim>\<open>close()\<close> moves a connecting or open socket to CLOSING and leaves the others.\<close>

definition ws_close :: "nat \<Rightarrow> client \<Rightarrow> client" where
  "ws_close k s =
     s\<lparr>sockets := upd_at k
        (\<lambda>w. if readyState w = CLOSING \<or> readyState w = CLOSED then w
              else w\<lparr>readyState := CLOSING\<rparr>) (sockets s)\<rparr>"

definition ws_send :: "nat \<Rightarrow> frame \<Rightarrow> client \<Rightarrow> client" where
  "ws_send k d s =
     s\<lparr>sockets := upd_at k
        (\<lambda>w. if readyState w = OPEN then w\<lparr>written := written w @ [d]\<rparr> else w) (sockets s)\<rparr>"

text \<open>The object the variable \<^verbatim>\<open>socket\<close> refers to, if it is not \<^verbatim>\<open>null\<close>.\<close>

definition cur :: "client \<Rightarrow> websocket option" where
  "cur s =
     (case socket s of
        None \<Rightarrow> None
      | Some k \<Rightarrow> if k < length (sockets s) then Some (sockets s ! k) else None)"

subsection \<open>Socket callbacks\<close>

definition notify_all :: "tracker_call \<Rightarrow> tracker list \<Rightarrow> tracker list" where
  "notify_all c ts = map (\<lambda>t. t\<lparr>received := received t @ [c]\<rparr>) ts"

text \<open>
  \<^verbatim>\<open>socket === null || socket.readyState !== WebSocket.OPEN\<close>, on the variable
  \<^verbatim>\<open>socket\<close> of the client, not on the socket whose callback runs.
\<close>

definition socket_not_open :: "client \<Rightarrow> bool" where
  "socket_not_open s = (case cur s of None \<Rightarrow> True | Some w \<Rightarrow> readyState w \<noteq> OPEN)"

definition onerror :: "string \<Rightarrow> client \<Rightarrow> client" where
  "onerror msg s = s\<lparr>warned := warned s @ [msg]\<rparr>"

definition onopen :: "client \<Rightarrow> client" where
  "onopen s =
     (let s1 = clearRetry s;
          s2 = s1\<lparr>trackers := notify_all OnConnect (trackers s1)\<rparr>
      in s2\<lparr>emitted := emitted s2 @ [EvConnect]\<rparr>)"

definition onclose :: "nat \<Rightarrow> client \<Rightarrow> client" where
  "onclose code s =
     (let s1 = (if code \<noteq> 1000 \<and> code \<noteq> 1005 \<and> code \<noteq> 4001
                then (if socket_not_open s then setupReconnection RECONNECT_INTERVAL s else s)
                else s)
      in if socket_not_open s1
         then s1\<lparr>trackers := notify_all OnDisconnect (trackers s1),
                 emitted := emitted s1 @ [EvDisconnect code]\<rparr>
         else s1)"

definition connection :: "string option \<Rightarrow> client \<Rightarrow> nat option \<times> client" where
  "connection remoteUrl s =
     (case remoteUrl of
        None \<Rightarrow> (None, s)
      | Some u \<Rightarrow> (case ws_new u s of (k, s') \<Rightarrow> (Some k, s')))"

subsection \<open>Routing of decoded events\<close>

definition findTracker :: "client \<Rightarrow> string \<Rightarrow> tracker option" where
  "findTracker s tid = find (\<lambda>t. group t = Some tid) (trackers s)"

text \<open>The call lands on the object \<^verbatim>\<open>find\<close> returned: the first match.\<close>

fun tell_first :: "(tracker \<Rightarrow> bool) \<Rightarrow> tracker_call \<Rightarrow> tracker list \<Rightarrow> tracker list" where
  "tell_first P c [] = []"
| "tell_first P c (t # ts) =
     (if P t then t\<lparr>received := received t @ [c]\<rparr> # ts else t # tell_first P c ts)"

definition forward :: "string \<Rightarrow> tracker_call \<Rightarrow> client \<Rightarrow> client" where
  "forward tid c s =
     (case findTracker s tid of
        None \<Rightarrow> s
      | Some t \<Rightarrow> s\<lparr>trackers := tell_first (\<lambda>t. group t = Some tid) c (trackers s)\<rparr>)"

definition onTrackerOpen :: "string \<Rightarrow> client \<Rightarrow> client" where
  "onTrackerOpen tid s = forward tid (OnOpen tid) s"

definition onTrackerClose :: "string \<Rightarrow> nat \<Rightarrow> string \<Rightarrow> client \<Rightarrow> client" where
  "onTrackerClose tid code message s = forward tid (OnClose code message) s"

definition onTrackerAction :: "string \<Rightarrow> string \<Rightarrow> int \<Rightarrow> client \<Rightarrow> client" where
  "onTrackerAction tid action serial s = forward tid (OnAction action serial) s"

definition onTrackerApiResponse ::
  "string \<Rightarrow> int \<Rightarrow> bool \<Rightarrow> string \<Rightarrow> string \<Rightarrow> client \<Rightarrow> client" where
  "onTrackerApiResponse tid apiId status response ps s =
     forward tid (OnApiResponse apiId status response ps) s"

definition onTrackerEmit :: "string \<Rightarrow> string \<Rightarrow> string \<Rightarrow> client \<Rightarrow> client" where
  "onTrackerEmit tid event data s = forward tid (Emit event data) s"

subsection \<open>The client's methods\<close>

definition isConnected :: "client \<Rightarrow> bool" where
  "isConnected s = (case cur s of None \<Rightarrow> False | Some w \<Rightarrow> readyState w = OPEN)"

definition connect :: "string \<Rightarrow> client \<Rightarrow> bool \<times> client" where
  "connect path s =
     (let u = host s @ ''/'' @ path;
          s1 = s\<lparr>url := Some u\<rparr>
      in if isConnected s1 \<and> (case cur s1 of None \<Rightarrow> False | Some w \<Rightarrow> ws_url w = u)
         then (True, s1)
         else (let s2 = (case socket s1 of None \<Rightarrow> s1 | Some k \<Rightarrow> ws_close k s1)
               in case connection (url s2) s2 of (r, s3) \<Rightarrow> (True, s3\<lparr>socket := r\<rparr>)))"

definition clearPath :: "client \<Rightarrow> client" where
  "clearPath s =
     (let s1 = s\<lparr>url := None\<rparr>
      in case socket s1 of
           None \<Rightarrow> s1
         | Some k \<Rightarrow> (ws_close k s1)\<lparr>socket := None\<rparr>)"

definition reconnect :: "client \<Rightarrow> bool \<times> client" where
  "reconnect s =
     (if url s = None \<or> (case cur s of None \<Rightarrow> False | Some w \<Rightarrow> readyState w = CONNECTING)
      then (False, s)
      else (let s1 = (case socket s of None \<Rightarrow> s | Some k \<Rightarrow> ws_close k s)
            in case connection (url s1) s1 of (r, s2) \<Rightarrow> (True, s2\<lparr>socket := r\<rparr>)))"

definition close :: "client \<Rightarrow> client" where
  "close s =
     (let s1 = (case socket s of None \<Rightarrow> s | Some k \<Rightarrow> ws_close k s)
      in clearRetry (s1\<lparr>socket := None\<rparr>))"

definition send :: "frame \<Rightarrow> client \<Rightarrow> client" where
  "send d s =
     (if \<not> isConnected s then s
      else (case socket s of None \<Rightarrow> s | Some k \<Rightarrow> ws_send k d s))"

text \<open>\<open>now\<close> is what \<^verbatim>\<open>Date.now()\<close> returns when the callback runs.\<close>

definition onTrackerTimestamp :: "int \<Rightarrow> string \<Rightarrow> client \<Rightarrow> client" where
  "onTrackerTimestamp now tid s = send (PKT_TRACKER_TIMESTAMP tid now) s"

text \<open>
  \<open>mk\<close> stands for \<^verbatim>\<open>new TrackerClient(store, trackerId, params, onClose)\<close>. The
  callback it is given removes the tracker from the list: \<open>dispose\<close>, by position.
\<close>

definition createTracker ::
  "(nat \<Rightarrow> string \<Rightarrow> (string \<times> string) list \<Rightarrow> tracker) \<Rightarrow>
   string \<Rightarrow> nat \<Rightarrow> (string \<times> string) list \<Rightarrow> client \<Rightarrow> (error + tracker) \<times> client" where
  "createTracker mk tid st ps s =
     (if find (\<lambda>t. trackerId t = Some tid) (trackers s) \<noteq> None
      then (Inl (DuplicateTracker tid), s)
      else (let t = mk st tid ps in (Inr t, s\<lparr>trackers := trackers s @ [t]\<rparr>)))"

definition dispose :: "nat \<Rightarrow> client \<Rightarrow> client" where
  "dispose i s =
     (if i < length (trackers s)
      then s\<lparr>trackers := take i (trackers s) @ drop (Suc i) (trackers s)\<rparr>
      else s)"

subsection \<open>The event loop\<close>

text \<open>
  The host runs one callback at a time. A socket changes its ready state before its
  callback runs: to OPEN before \<^verbatim>\<open>onopen\<close> (only a connecting socket opens), to CLOSED
  before \<^verbatim>\<open>onclose\<close> (a socket closes once). A pending timeout fires once: it leaves
  the pending list, then its callback resets the handle and calls \<^verbatim>\<open>client.reconnect()\<close>.
  A message is delivered on a socket that has opened and has not closed; whether one
  still arrives between \<^verbatim>\<open>close()\<close> and the close event is up to the WebSocket class
  handed to \<^verbatim>\<open>createClient\<close>, so the event is possible there too.
\<close>

definition sock_open :: "nat \<Rightarrow> client \<Rightarrow> client" where
  "sock_open k s =
     (if k < length (sockets s) \<and> readyState (sockets s ! k) = CONNECTING
      then onopen (s\<lparr>sockets := upd_at k (\<lambda>w. w\<lparr>readyState := OPEN\<rparr>) (sockets s)\<rparr>)
      else s)"

definition sock_close :: "nat \<Rightarrow> nat \<Rightarrow> client \<Rightarrow> client" where
  "sock_close k code s =
     (if k < length (sockets s) \<and> readyState (sockets s ! k) \<noteq> CLOSED
      then onclose code (s\<lparr>sockets := upd_at k (\<lambda>w. w\<lparr>readyState := CLOSED\<rparr>) (sockets s)\<rparr>)
      else s)"

definition sock_error :: "nat \<Rightarrow> string \<Rightarrow> client \<Rightarrow> client" where
  "sock_error k msg s = (if k < length (sockets s) then onerror msg s else s)"

fun parse :: "int \<Rightarrow> protocol_event \<Rightarrow> client \<Rightarrow> client" where
  "parse now (TrackerOpen tid) s = onTrackerOpen tid s"
| "parse now (TrackerClose tid code message) s = onTrackerClose tid code message s"
| "parse now (TrackerAction tid action serial) s = onTrackerAction tid action serial s"
| "parse now (TrackerApiResponse tid apiId status response ps) s =
     onTrackerApiResponse tid apiId status response ps s"
| "parse now (TrackerEmit tid event data) s = onTrackerEmit tid event data s"
| "parse now (TrackerTimestampRequest tid) s = onTrackerTimestamp now tid s"

definition sock_message :: "nat \<Rightarrow> int \<Rightarrow> protocol_event \<Rightarrow> client \<Rightarrow> client" where
  "sock_message k now ev s =
     (if k < length (sockets s) \<and> readyState (sockets s ! k) \<noteq> CONNECTING
                                \<and> readyState (sockets s ! k) \<noteq> CLOSED
      then parse now ev s
      else s)"

definition timer_fire :: "nat \<Rightarrow> client \<Rightarrow> client" where
  "timer_fire h s =
     (if h \<in> fst ` set (timers s)
      then snd (reconnect ((clearTimeout h s)\<lparr>reconnectTimerHandle := None\<rparr>))
      else s)"

datatype event =
    Connect string
  | ClearPath
  | Reconnect
  | Close
  | Send frame
  | CreateTracker string nat "(string \<times> string) list"
  | Dispose nat
  | SockOpen nat
  | SockClose nat nat
  | SockError nat string
  | SockMessage nat int protocol_event
  | TimerFire nat

fun step ::
  "(nat \<Rightarrow> string \<Rightarrow> (string \<times> string) list \<Rightarrow> tracker) \<Rightarrow> client \<Rightarrow> event \<Rightarrow> client" where
  "step mk s (Connect path) = snd (connect path s)"
| "step mk s ClearPath = clearPath s"
| "step mk s Reconnect = snd (reconnect s)"
| "step mk s Close = close s"
| "step mk s (Send d) = send d s"
| "step mk s (CreateTracker tid st ps) = snd (createTracker mk tid st ps s)"
| "step mk s (Dispose i) = dispose i s"
| "step mk s (SockOpen k) = sock_open k s"
| "step mk s (SockClose k code) = sock_close k code s"
| "step mk s (SockError k msg) = sock_error k msg s"
| "step mk s (SockMessage k now ev) = sock_message k now ev s"
| "step mk s (TimerFire h) = timer_fire h s"

definition run ::
  "(nat \<Rightarrow> string \<Rightarrow> (string \<times> string) list \<Rightarrow> tracker) \<Rightarrow> client \<Rightarrow> event list \<Rightarrow> client" where
  "run mk s evs = foldl (step mk) s evs"

text \<open>
  What ties the handle to the host's pending timeouts: no handle and nothing pending,
  or a non-zero handle and exactly its timeout pending, set for \<open>RECONNECT_INTERVAL\<close>.
\<close>

definition timer_inv :: "client \<Rightarrow> bool" where
  "timer_inv s =
     (0 < next_timer s \<and>
      (case reconnectTimerHandle s of
         None \<Rightarrow> timers s = []
       | Some h \<Rightarrow> h \<noteq> 0 \<and> timers s = [(h, RECONNECT_INTERVAL)]))"

text \<open>
  What ties the variable \<^verbatim>\<open>socket\<close> to the sockets constructed so far: it refers to
  one of them or to none, and \<^verbatim>\<open>close()\<close> has been called on every other one.
\<close>

definition sock_inv :: "client \<Rightarrow> bool" where
  "sock_inv s =
     ((case socket s of None \<Rightarrow> True | Some k \<Rightarrow> k < length (sockets s)) \<and>
      (\<forall>j < length (sockets s). socket s \<noteq> Some j \<longrightarrow>
         readyState (sockets s ! j) = CLOSING \<or> readyState (sockets s ! j) = CLOSED))"

text \<open>The events that are a call of \<^verbatim>\<open>client.connect\<close>.\<close>

fun is_connect :: "event \<Rightarrow> bool" where
  "is_connect (Connect path) = True"
| "is_connect ev = False"



section \<open>The demo chat API\<close>

text \<open>
  \<^verbatim>\<open>ROOMS\<close> is an object literal: its own properties are the five rooms, and a property
  read that misses them goes on to \<^verbatim>\<open>Object.prototype\<close>, whose members are functions
  (or, for \<^verbatim>\<open>__proto__\<close>, the prototype itself): truthy values that are not arrays.
  The session object comes from the server framework, outside these sources; the
  record keeps what \<^verbatim>\<open>join\<close> reads from it and, as logs, what it does to it.
\<close>

record user =
  user_id :: string
  user_name :: string

datatype action =
    ADD_MEMBER user
  | MEMBERS string "user list"

datatype jsval = Members "user list" | Inherited string

definition Object_prototype :: "string list" where
  "Object_prototype =
     [''constructor'', ''__defineGetter__'', ''__defineSetter__'', ''hasOwnProperty'',
      ''__lookupGetter__'', ''__lookupSetter__'', ''isPrototypeOf'',
      ''propertyIsEnumerable'', ''toString'', ''valueOf'', ''__proto__'',
      ''toLocaleString'']"

record chat =
  ROOMS :: "(string \<times> user list) list"
  session_user :: "user option"
  session_room :: "string option"
  subscribed :: "string list"
  channel_dispatched :: "(string \<times> action) list"
  dispatched :: "action list"
  close_listeners :: nat
  logged :: "string list"

definition ROOMS0 :: "(string \<times> user list) list" where
  "ROOMS0 = [(''python'', []), (''java'', []), (''javascript'', []), (''ruby'', []),
             (''php'', [])]"

text \<open>\<^verbatim>\<open>ROOMS[room]\<close>; \<open>None\<close> is \<^verbatim>\<open>undefined\<close>.\<close>

definition get_prop :: "(string \<times> user list) list \<Rightarrow> string \<Rightarrow> jsval option" where
  "get_prop obj key =
     (case map_of obj key of
        Some v \<Rightarrow> Some (Members v)
      | None \<Rightarrow> if key \<in> set Object_prototype then Some (Inherited key) else None)"

definition getMembers :: "string \<Rightarrow> chat \<Rightarrow> error + jsval" where
  "getMembers room c =
     (case get_prop (ROOMS c) room of
        None \<Rightarrow> Inl (UnknownRoom room)
      | Some members \<Rightarrow> Inr members)"

text \<open>
  An exception leaves the effects made before it in place, so \<open>join\<close> returns the
  state it reached together with its outcome. \<^verbatim>\<open>push\<close> changes the array in place;
  on a value that has no \<^verbatim>\<open>push\<close> the call is a TypeError.
\<close>

definition join :: "string \<Rightarrow> chat \<Rightarrow> (error + unit) \<times> chat" where
  "join room c =
     (case session_user c of
        None \<Rightarrow> (Inl (TypeError ''Cannot read properties of undefined''), c)
      | Some u \<Rightarrow>
          (let c1 = c\<lparr>logged := logged c @
                        [''JOIN '' @ room @ '' '' @ user_name u @ ''/'' @ user_id u]\<rparr>
           in case getMembers room c1 of
                Inl e \<Rightarrow> (Inl e, c1)
              | Inr members \<Rightarrow>
                  (let c2 = c1\<lparr>channel_dispatched :=
                                 channel_dispatched c1 @ [(room, ADD_MEMBER u)]\<rparr>;
                       c3 = c2\<lparr>subscribed := subscribed c2 @ [room]\<rparr>
                   in case get_prop (ROOMS c3) room of
                        Some (Members ms) \<Rightarrow>
                          (let c4 = c3\<lparr>ROOMS := map (\<lambda>(k, v). if k = room then (k, v @ [u])
                                                                else (k, v)) (ROOMS c3)\<rparr>;
                               c5 = c4\<lparr>session_room := Some room\<rparr>;
                               c6 = c5\<lparr>close_listeners := Suc (close_listeners c5)\<rparr>
                           in (Inr (),
                               c6\<lparr>dispatched := dispatched c6 @ [MEMBERS room (ms @ [u])]\<rparr>))
                      | _ \<Rightarrow> (Inl (TypeError ''ROOMS[room].push is not a function''), c3))))"

section \<open>Scenarios\<close>

text \<open>
  A tracker constructor that stores the identifier under both property names the
  client reads, and the states of a few call sequences on a new client.
\<close>

definition both_names :: "nat \<Rightarrow> string \<Rightarrow> (string \<times> string) list \<Rightarrow> tracker" where
  "both_names st tid ps =
     \<lparr>group = Some tid, trackerId = Some tid, store = st, params = ps, received = []\<rparr>"

text \<open>\<^verbatim>\<open>connect("/app")\<close>, then the socket opens.\<close>

definition open_on_app :: client where
  "open_on_app = sock_open 0 (snd (connect ''/app'' (fresh ''ws://chat.example'')))"

text \<open>\<^verbatim>\<open>connect("/app")\<close>, then \<^verbatim>\<open>connect("/other")\<close> before the first socket opened.\<close>

definition superseded :: client where
  "superseded = snd (connect ''/other'' (snd (connect ''/app'' (fresh ''ws://chat.example''))))"

text \<open>
  \<^verbatim>\<open>connect("/app")\<close>, the socket opens, \<^verbatim>\<open>reconnect()\<close>, and the new socket opens
  before the close event of the first one has arrived.
\<close>

definition reopened :: client where
  "reopened = sock_open 1 (snd (reconnect open_on_app))"

text \<open>\<^verbatim>\<open>connect("/app")\<close>, the socket opens, then \<^verbatim>\<open>close()\<close>.\<close>

definition opened_then_closed :: client where
  "opened_then_closed = close open_on_app"

text \<open>\<^verbatim>\<open>connect("/app")\<close>, then the connection fails with close code 1006.\<close>

definition retry_pending :: client where
  "retry_pending = sock_close 0 1006 (snd (connect ''/app'' (fresh ''ws://chat.example'')))"

text \<open>A session of the demo with a user and no room yet.\<close>

definition lobby :: chat where
  "lobby = \<lparr>ROOMS = ROOMS0, session_user = Some \<lparr>user_id = ''7'', user_name = ''ada''\<rparr>,
            session_room = None, subscribed = [], channel_dispatched = [], dispatched = [],
            close_listeners = 0, logged = []\<rparr>"

text \<open>A tracker constructor that stores the identifier as \<^verbatim>\<open>group\<close> only.\<close>

definition group_only :: "nat \<Rightarrow> string \<Rightarrow> (string \<times> string) list \<Rightarrow> tracker" where
  "group_only st tid ps =
     \<lparr>group = Some tid, trackerId = None, store = st, params = ps, received = []\<rparr>"

text \<open>
  A client for \<^verbatim>\<open>http://LOCALHOST:18772\<close>, whose host \<open>getHost\<close> rewrites to
  \<^verbatim>\<open>ws://LOCALHOST:18772\<close>: \<^verbatim>\<open>connect("app")\<close>, then the socket opens.
\<close>

definition upper_host_open :: client where
  "upper_host_open = sock_open 0 (snd (connect ''app'' (fresh ''ws://LOCALHOST:18772'')))"

text \<open>A new client on which \<^verbatim>\<open>createTracker("room:1", ...)\<close> has run.\<close>

definition one_tracker :: client where
  "one_tracker = snd (createTracker both_names ''room:1'' 0 [] (fresh ''ws://chat.example''))"

section \<open>Endpoint construction\<close>

lemma getHost_http: "getHost (''http:'' @ r) = Inr (''ws:'' @ r)"
  by (simp add: getHost_def startsWith_def substr_def)

lemma getHost_https: "getHost (''https:'' @ r) = Inr (''wss:'' @ r)"
  by (simp add: getHost_def startsWith_def substr_def)

lemma getHost_ws: "getHost (''ws:'' @ r) = Inr (''ws:'' @ r)"
  by (simp add: getHost_def startsWith_def substr_def)

lemma getHost_wss: "getHost (''wss:'' @ r) = Inr (''wss:'' @ r)"
  by (simp add: getHost_def startsWith_def substr_def)

lemma getHost_other:
  "\<not> startsWith e ''http:'' \<Longrightarrow> \<not> startsWith e ''https:'' \<Longrightarrow> \<not> startsWith e ''ws:'' \<Longrightarrow>
   \<not> startsWith e ''wss:'' \<Longrightarrow> getHost e = Inl (InvalidEndpoint e)"
  by (simp add: getHost_def)

text \<open>
  C5. \<open>getHost\<close> rewrites the scheme of the address: \<^verbatim>\<open>http:\<close> followed by \<open>r\<close>
  becomes \<^verbatim>\<open>ws:\<close> followed by the same \<open>r\<close>, \<^verbatim>\<open>https:\<close> becomes \<^verbatim>\<open>wss:\<close>, an
  address that starts with \<^verbatim>\<open>ws:\<close> or \<^verbatim>\<open>wss:\<close> is returned as it is, and for an
  address that starts with none of the four \<open>getHost\<close> throws, and so does
  \<open>createClient\<close>, whose first statement is the call.
\<close>

theorem getHost_rewrites_scheme:
  "getHost (''http:'' @ r) = Inr (''ws:'' @ r) \<and>
   getHost (''https:'' @ r) = Inr (''wss:'' @ r) \<and>
   getHost (''ws:'' @ r) = Inr (''ws:'' @ r) \<and>
   getHost (''wss:'' @ r) = Inr (''wss:'' @ r) \<and>
   (\<not> startsWith e ''http:'' \<and> \<not> startsWith e ''https:'' \<and>
    \<not> startsWith e ''ws:'' \<and> \<not> startsWith e ''wss:'' \<longrightarrow>
      getHost e = Inl (InvalidEndpoint e) \<and> createClient e = Inl (InvalidEndpoint e))"
proof (intro conjI impI)
  assume other: "\<not> startsWith e ''http:'' \<and> \<not> startsWith e ''https:'' \<and>
    \<not> startsWith e ''ws:'' \<and> \<not> startsWith e ''wss:''"
  then show err: "getHost e = Inl (InvalidEndpoint e)"
    by (simp add: getHost_other)
  then show "createClient e = Inl (InvalidEndpoint e)"
    by (simp add: createClient_def)
qed (rule getHost_http getHost_https getHost_ws getHost_wss)+

theorem getHost_rewrites_scheme_witness:
  "\<not> startsWith ''ftp://chat.example'' ''http:'' \<and>
   \<not> startsWith ''ftp://chat.example'' ''https:'' \<and>
   \<not> startsWith ''ftp://chat.example'' ''ws:'' \<and>
   \<not> startsWith ''ftp://chat.example'' ''wss:'' \<and>
   getHost ''ftp://chat.example'' = Inl (InvalidEndpoint ''ftp://chat.example'') \<and>
   createClient ''ftp://chat.example'' = Inl (InvalidEndpoint ''ftp://chat.example'') \<and>
   getHost ''https://chat.example'' = Inr ''wss://chat.example''"
  using getHost_rewrites_scheme [of "''//chat.example''" "''ftp://chat.example''"]
  by (simp add: startsWith_def)

section \<open>Tracker registry and router\<close>

text \<open>
  C9. A decoded \<^verbatim>\<open>TrackerEmit\<close> whose identifier \<open>findTracker\<close> does not find is
  dropped: the callback returns the state it was given, so no tracker has received
  anything and nothing is raised.
\<close>

theorem emit_unregistered_dropped:
  "findTracker s tid = None \<Longrightarrow>
     onTrackerEmit tid event data s = s \<and>
     parse now (TrackerEmit tid event data) s = s"
  by (simp add: onTrackerEmit_def forward_def)

theorem emit_unregistered_dropped_witness:
  "findTracker one_tracker ''room:2'' = None \<and>
   onTrackerEmit ''room:2'' ''typing'' ''{}'' one_tracker = one_tracker \<and>
   parse 0 (TrackerEmit ''room:2'' ''typing'' ''{}'') one_tracker = one_tracker \<and>
   trackers one_tracker \<noteq> []"
proof -
  have h: "findTracker one_tracker ''room:2'' = None"
    by (simp add: findTracker_def one_tracker_def createTracker_def fresh_def both_names_def
        Let_def)
  have "trackers one_tracker \<noteq> []"
    by (simp add: one_tracker_def createTracker_def fresh_def both_names_def Let_def)
  with h emit_unregistered_dropped [OF h, of "''typing''" "''{}''" 0] show ?thesis by simp
qed

section \<open>Connection manager\<close>

lemma serialise_app: "serialise ''ws://chat.example//app'' = ''ws://chat.example//app''"
  by (simp add: serialise_def lower_host_def lower_def Let_def)

lemma serialise_other:
  "serialise ''ws://chat.example//other'' = ''ws://chat.example//other''"
  by (simp add: serialise_def lower_host_def lower_def Let_def)

lemma serialise_upper: "serialise ''ws://LOCALHOST:18772/app'' = ''ws://localhost:18772/app''"
  by (simp add: serialise_def lower_host_def lower_def Let_def)

lemma cur_same: "socket s' = socket s \<Longrightarrow> sockets s' = sockets s \<Longrightarrow> cur s' = cur s"
  by (simp add: cur_def split: option.splits)

lemma open_on_app_eq:
  "open_on_app = \<lparr>host = ''ws://chat.example'', trackers = [], reconnectTimerHandle = None,
     socket = Some 0, url = Some ''ws://chat.example//app'',
     sockets = [\<lparr>ws_url = ''ws://chat.example//app'', readyState = OPEN, written = []\<rparr>],
     timers = [], next_timer = 1, emitted = [EvConnect], warned = []\<rparr>"
  by (simp add: open_on_app_def sock_open_def connect_def fresh_def isConnected_def cur_def
      connection_def ws_new_def serialise_app serialise_other onopen_def clearRetry_def notify_all_def upd_at_def Let_def)

text \<open>
  Where the open socket answers \<^verbatim>\<open>socket.url\<close> with the very string that \<open>path\<close>
  resolves to, \<open>connect path\<close> returns \<open>True\<close> and does nothing but store that
  string in \<open>url\<close>: no socket is closed and none is constructed.
\<close>

lemma connect_same_url_noop:
  assumes "cur s = Some w" and "readyState w = OPEN" and "ws_url w = host s @ ''/'' @ path"
  shows "connect path s = (True, s\<lparr>url := Some (host s @ ''/'' @ path)\<rparr>)"
proof -
  have c: "cur (s\<lparr>url := Some (host s @ ''/'' @ path)\<rparr>) = Some w"
    using assms(1) cur_same [of "s\<lparr>url := Some (host s @ ''/'' @ path)\<rparr>" s] by simp
  show ?thesis
    using assms c by (simp add: connect_def isConnected_def Let_def)
qed

lemma connect_app_again: "connect ''/app'' open_on_app = (True, open_on_app)"
proof -
  let ?w = "\<lparr>ws_url = ''ws://chat.example//app'', readyState = OPEN, written = []\<rparr>"
  have c: "cur open_on_app = Some ?w"
    by (simp add: open_on_app_eq cur_def)
  have u: "ws_url ?w = host open_on_app @ ''/'' @ ''/app''"
    by (simp add: open_on_app_eq)
  from connect_same_url_noop [OF c _ u] show ?thesis
    by (simp add: open_on_app_eq)
qed

lemma upper_host_open_eq:
  "upper_host_open = \<lparr>host = ''ws://LOCALHOST:18772'', trackers = [],
     reconnectTimerHandle = None, socket = Some 0, url = Some ''ws://LOCALHOST:18772/app'',
     sockets = [\<lparr>ws_url = ''ws://localhost:18772/app'', readyState = OPEN, written = []\<rparr>],
     timers = [], next_timer = 1, emitted = [EvConnect], warned = []\<rparr>"
  by (simp add: upper_host_open_def sock_open_def connect_def fresh_def isConnected_def cur_def
      connection_def ws_new_def serialise_upper onopen_def clearRetry_def notify_all_def
      upd_at_def Let_def)

text \<open>
  C4 fails on the code for an address whose host is not in lower case. The client made
  for \<^verbatim>\<open>http://LOCALHOST:18772\<close> is open on \<^verbatim>\<open>connect("app")\<close>; its \<open>url\<close> is
  \<^verbatim>\<open>ws://LOCALHOST:18772/app\<close> and its socket answers \<^verbatim>\<open>socket.url\<close> with
  \<^verbatim>\<open>ws://localhost:18772/app\<close>. A second \<^verbatim>\<open>connect("app")\<close> resolves to the same
  target, but \<^verbatim>\<open>socket.url === url\<close> compares the two strings and fails: the open
  socket is closed and a second one is constructed.
\<close>

theorem connect_same_target_replaces_socket:
  "createClient ''http://LOCALHOST:18772'' = Inr (fresh ''ws://LOCALHOST:18772'') \<and>
   isConnected upper_host_open \<and>
   url upper_host_open = Some ''ws://LOCALHOST:18772/app'' \<and>
   map ws_url (sockets upper_host_open) = [''ws://localhost:18772/app''] \<and>
   fst (connect ''app'' upper_host_open) = True \<and>
   socket (snd (connect ''app'' upper_host_open)) = Some 1 \<and>
   map readyState (sockets (snd (connect ''app'' upper_host_open))) = [CLOSING, CONNECTING]"
  by (simp add: upper_host_open_eq createClient_def getHost_def startsWith_def substr_def
      connect_def isConnected_def cur_def connection_def ws_new_def ws_close_def upd_at_def
      serialise_upper Let_def)

subsection \<open>What every reachable state satisfies\<close>

lemmas prim_defs = setTimeout_def clearTimeout_def truthy_def setupReconnection_def
  clearRetry_def upd_at_def ws_new_def ws_close_def ws_send_def cur_def notify_all_def
  socket_not_open_def onerror_def onopen_def onclose_def connection_def findTracker_def
  forward_def onTrackerOpen_def onTrackerClose_def onTrackerAction_def
  onTrackerApiResponse_def onTrackerEmit_def isConnected_def connect_def clearPath_def
  reconnect_def close_def send_def onTrackerTimestamp_def createTracker_def dispose_def
  sock_open_def sock_close_def sock_error_def sock_message_def timer_fire_def

lemma forward_fields:
  "reconnectTimerHandle (forward tid c s) = reconnectTimerHandle s"
  "timers (forward tid c s) = timers s"
  "next_timer (forward tid c s) = next_timer s"
  "socket (forward tid c s) = socket s"
  "sockets (forward tid c s) = sockets s"
  "url (forward tid c s) = url s"
  "emitted (forward tid c s) = emitted s"
  by (simp_all add: forward_def split: option.splits)

lemma send_fields:
  "reconnectTimerHandle (send d s) = reconnectTimerHandle s"
  "timers (send d s) = timers s"
  "next_timer (send d s) = next_timer s"
  "socket (send d s) = socket s"
  "url (send d s) = url s"
  "trackers (send d s) = trackers s"
  "emitted (send d s) = emitted s"
  "length (sockets (send d s)) = length (sockets s)"
  "readyState (sockets (send d s) ! j) = readyState (sockets s ! j)"
  by (auto simp: send_def ws_send_def upd_at_def nth_list_update split: option.splits)

lemma parse_fields:
  "reconnectTimerHandle (parse now ev s) = reconnectTimerHandle s"
  "timers (parse now ev s) = timers s"
  "next_timer (parse now ev s) = next_timer s"
  "socket (parse now ev s) = socket s"
  "url (parse now ev s) = url s"
  "emitted (parse now ev s) = emitted s"
  "length (sockets (parse now ev s)) = length (sockets s)"
  "readyState (sockets (parse now ev s) ! j) = readyState (sockets s ! j)"
  by (cases ev; simp add: onTrackerOpen_def onTrackerClose_def onTrackerAction_def
        onTrackerApiResponse_def onTrackerEmit_def onTrackerTimestamp_def forward_fields
        send_fields)+

lemma timer_inv_fresh: "timer_inv (fresh h)"
  by (simp add: timer_inv_def fresh_def)

lemma sock_inv_fresh: "sock_inv (fresh h)"
  by (simp add: sock_inv_def fresh_def)

lemma timer_inv_step: "timer_inv s \<Longrightarrow> timer_inv (step mk s ev)"
proof (cases ev)
  case (SockMessage k now e)
  assume "timer_inv s"
  then show ?thesis
    by (simp add: SockMessage sock_message_def timer_inv_def parse_fields
        split: option.splits)
qed (auto simp: timer_inv_def prim_defs Let_def split: option.splits if_splits prod.splits)

lemma sock_inv_step: "sock_inv s \<Longrightarrow> sock_inv (step mk s ev)"
proof (cases ev)
  case (SockMessage k now e)
  assume "sock_inv s"
  then show ?thesis
    by (simp add: SockMessage sock_message_def sock_inv_def parse_fields
        split: option.splits)
next
  case (Send d)
  assume "sock_inv s"
  then show ?thesis
    by (simp add: Send sock_inv_def send_fields split: option.splits)
qed (auto simp: sock_inv_def prim_defs Let_def nth_append nth_list_update less_Suc_eq
       split: option.splits if_splits prod.splits)

lemma timer_inv_run: "timer_inv s \<Longrightarrow> timer_inv (run mk s evs)"
  unfolding run_def by (induction evs arbitrary: s) (simp_all add: timer_inv_step)

lemma sock_inv_run: "sock_inv s \<Longrightarrow> sock_inv (run mk s evs)"
  unfolding run_def by (induction evs arbitrary: s) (simp_all add: sock_inv_step)

lemma reachable_invs: "timer_inv (run mk (fresh h) evs) \<and> sock_inv (run mk (fresh h) evs)"
  by (simp add: timer_inv_run sock_inv_run timer_inv_fresh sock_inv_fresh)

subsection \<open>Callbacks of a socket that has been replaced\<close>

lemma not_open_iff: "socket_not_open s = (\<not> isConnected s)"
  by (simp add: socket_not_open_def isConnected_def split: option.splits)

lemma isConnected_same: "cur s' = cur s \<Longrightarrow> isConnected s' = isConnected s"
  by (simp add: isConnected_def)

lemma setup_fields:
  "trackers (setupReconnection i s) = trackers s"
  "emitted (setupReconnection i s) = emitted s"
  "socket (setupReconnection i s) = socket s"
  "sockets (setupReconnection i s) = sockets s"
  "url (setupReconnection i s) = url s"
  by (simp_all add: setupReconnection_def setTimeout_def)

lemma isConnected_setup: "isConnected (setupReconnection i s) = isConnected s"
  by (rule isConnected_same, rule cur_same) (simp_all add: setup_fields)

lemma onclose_connected: "isConnected s \<Longrightarrow> onclose code s = s"
  by (simp add: onclose_def not_open_iff Let_def)

lemma onclose_not_connected:
  assumes "\<not> isConnected s"
  shows "emitted (onclose code s) = emitted s @ [EvDisconnect code]"
    and "trackers (onclose code s) = notify_all OnDisconnect (trackers s)"
    and "timers (onclose code s) =
           timers (if code \<noteq> 1000 \<and> code \<noteq> 1005 \<and> code \<noteq> 4001
                   then setupReconnection RECONNECT_INTERVAL s else s)"
    and "reconnectTimerHandle (onclose code s) =
           reconnectTimerHandle (if code \<noteq> 1000 \<and> code \<noteq> 1005 \<and> code \<noteq> 4001
                   then setupReconnection RECONNECT_INTERVAL s else s)"
  using assms by (simp_all add: onclose_def not_open_iff isConnected_setup setup_fields Let_def)

lemma setup_timers:
  "timer_inv s \<Longrightarrow>
     (\<exists>h. h \<noteq> 0 \<and>
          timers (setupReconnection RECONNECT_INTERVAL s) = [(h, RECONNECT_INTERVAL)] \<and>
          reconnectTimerHandle (setupReconnection RECONNECT_INTERVAL s) = Some h)"
  by (auto simp: timer_inv_def setupReconnection_def setTimeout_def truthy_def
      split: option.splits)

lemma superseded_eq:
  "superseded = \<lparr>host = ''ws://chat.example'', trackers = [], reconnectTimerHandle = None,
     socket = Some 1, url = Some ''ws://chat.example//other'',
     sockets = [\<lparr>ws_url = ''ws://chat.example//app'', readyState = CLOSING, written = []\<rparr>,
                \<lparr>ws_url = ''ws://chat.example//other'', readyState = CONNECTING,
                   written = []\<rparr>],
     timers = [], next_timer = 1, emitted = [], warned = []\<rparr>"
  by (simp add: superseded_def connect_def fresh_def isConnected_def cur_def
      connection_def ws_new_def serialise_app serialise_other ws_close_def upd_at_def Let_def)

text \<open>
  C1, as stated, fails. After \<^verbatim>\<open>connect("/app")\<close> and \<^verbatim>\<open>connect("/other")\<close> the
  current socket is the second one, still connecting. The close event of the first
  socket (code 1006, as for a connection given up before it opened) emits
  \<^verbatim>\<open>disconnect\<close> and arms the reconnect timer.
\<close>

theorem stale_close_counterexample:
  "socket superseded = Some 1 \<and>
   emitted superseded = [] \<and> timers superseded = [] \<and>
   emitted (sock_close 0 1006 superseded) = [EvDisconnect 1006] \<and>
   timers (sock_close 0 1006 superseded) = [(1, 2500)] \<and>
   reconnectTimerHandle (sock_close 0 1006 superseded) = Some 1"
  by (simp add: superseded_eq sock_close_def onclose_def socket_not_open_def cur_def
      upd_at_def setupReconnection_def truthy_def setTimeout_def notify_all_def
      RECONNECT_INTERVAL_def Let_def)

text \<open>
  C1, amended. The callbacks do not look at the socket they belong to; what they test
  is whether the client's current socket is open. In every reachable state, for a
  socket \<open>j\<close> that is not the current one:
  \<^item> no open callback runs (\<^verbatim>\<open>close()\<close> was called on it before it was replaced);
  \<^item> while the current socket is open, its close callback changes nothing but the
    ready state of \<open>j\<close> itself: no timer, no tracker notified, no event emitted;
  \<^item> while there is no current socket or it is not open, its close callback notifies
    every tracker, emits \<^verbatim>\<open>disconnect\<close> with the code and, for a code other than
    1000, 1005 and 4001, leaves a reconnect timer pending.
\<close>

theorem stale_callbacks:
  assumes "s = run mk (fresh h) evs" and "j < length (sockets s)" and "socket s \<noteq> Some j"
  shows "sock_open j s = s \<and>
         (isConnected s \<longrightarrow>
            sock_close j code s =
              (if readyState (sockets s ! j) = CLOSED then s
               else s\<lparr>sockets := (sockets s)[j := (sockets s ! j)\<lparr>readyState := CLOSED\<rparr>]\<rparr>)) \<and>
         (\<not> isConnected s \<and> readyState (sockets s ! j) \<noteq> CLOSED \<longrightarrow>
            emitted (sock_close j code s) = emitted s @ [EvDisconnect code] \<and>
            trackers (sock_close j code s) = notify_all OnDisconnect (trackers s) \<and>
            (code \<noteq> 1000 \<and> code \<noteq> 1005 \<and> code \<noteq> 4001 \<longrightarrow>
               timers (sock_close j code s) \<noteq> []))"
proof -
  have inv: "sock_inv s" "timer_inv s"
    using assms(1) reachable_invs by simp_all
  have st: "readyState (sockets s ! j) = CLOSING \<or> readyState (sockets s ! j) = CLOSED"
    using inv(1) assms(2,3) by (simp add: sock_inv_def)
  then have 1: "sock_open j s = s"
    by (auto simp: sock_open_def)
  let ?s' = "s\<lparr>sockets := upd_at j (\<lambda>w. w\<lparr>readyState := CLOSED\<rparr>) (sockets s)\<rparr>"
  have c: "cur ?s' = cur s"
    using assms(2,3) by (auto simp: cur_def upd_at_def split: option.splits)
  then have ic: "isConnected ?s' = isConnected s"
    by (rule isConnected_same)
  have ti: "timer_inv ?s'"
    using inv(2) by (simp add: timer_inv_def split: option.splits)
  have 2: "sock_close j code s =
              (if readyState (sockets s ! j) = CLOSED then s
               else s\<lparr>sockets := (sockets s)[j := (sockets s ! j)\<lparr>readyState := CLOSED\<rparr>]\<rparr>)"
    if "isConnected s"
    using that ic assms(2) by (simp add: sock_close_def onclose_connected upd_at_def)
  have 3: "emitted (sock_close j code s) = emitted s @ [EvDisconnect code] \<and>
           trackers (sock_close j code s) = notify_all OnDisconnect (trackers s) \<and>
           (code \<noteq> 1000 \<and> code \<noteq> 1005 \<and> code \<noteq> 4001 \<longrightarrow>
              timers (sock_close j code s) \<noteq> [])"
    if "\<not> isConnected s" "readyState (sockets s ! j) \<noteq> CLOSED"
  proof -
    have n: "\<not> isConnected ?s'" using that ic by simp
    have sc: "sock_close j code s = onclose code ?s'"
      using that assms(2) by (simp add: sock_close_def)
    show ?thesis
      using setup_timers [OF ti] by (auto simp: sc onclose_not_connected [OF n])
  qed
  from 1 2 3 show ?thesis by blast
qed

lemma reopened_eq:
  "reopened = \<lparr>host = ''ws://chat.example'', trackers = [], reconnectTimerHandle = None,
     socket = Some 1, url = Some ''ws://chat.example//app'',
     sockets = [\<lparr>ws_url = ''ws://chat.example//app'', readyState = CLOSING, written = []\<rparr>,
                \<lparr>ws_url = ''ws://chat.example//app'', readyState = OPEN, written = []\<rparr>],
     timers = [], next_timer = 1, emitted = [EvConnect, EvConnect], warned = []\<rparr>"
  by (simp add: reopened_def open_on_app_eq reconnect_def sock_open_def cur_def
      connection_def ws_new_def serialise_app serialise_other ws_close_def upd_at_def onopen_def clearRetry_def
      notify_all_def Let_def)

lemma reopened_run:
  "reopened = run both_names (fresh ''ws://chat.example'')
                [Connect ''/app'', SockOpen 0, Reconnect, SockOpen 1]"
  by (simp add: run_def reopened_def open_on_app_def)

lemma superseded_run:
  "superseded = run both_names (fresh ''ws://chat.example'')
                  [Connect ''/app'', Connect ''/other'']"
  by (simp add: run_def superseded_def)

theorem stale_callbacks_witness:
  "reopened = run both_names (fresh ''ws://chat.example'')
                [Connect ''/app'', SockOpen 0, Reconnect, SockOpen 1] \<and>
   0 < length (sockets reopened) \<and> socket reopened \<noteq> Some 0 \<and> isConnected reopened \<and>
   sock_open 0 reopened = reopened \<and>
   emitted (sock_close 0 1006 reopened) = emitted reopened \<and>
   timers (sock_close 0 1006 reopened) = [] \<and>
   0 < length (sockets superseded) \<and> socket superseded \<noteq> Some 0 \<and>
   \<not> isConnected superseded \<and> readyState (sockets superseded ! 0) \<noteq> CLOSED \<and>
   emitted (sock_close 0 1006 superseded) = emitted superseded @ [EvDisconnect 1006] \<and>
   timers (sock_close 0 1006 superseded) \<noteq> []"
proof -
  have a: "0 < length (sockets reopened)" by (simp add: reopened_eq)
  have b: "socket reopened \<noteq> Some 0" by (simp add: reopened_eq)
  have c: "isConnected reopened" by (simp add: reopened_eq isConnected_def cur_def)
  note th = stale_callbacks [OF reopened_run a b, of 1006]
  from th have d: "sock_open 0 reopened = reopened" by blast
  from th c have "sock_close 0 1006 reopened =
      (if readyState (sockets reopened ! 0) = CLOSED then reopened
       else reopened\<lparr>sockets := (sockets reopened)
                        [0 := (sockets reopened ! 0)\<lparr>readyState := CLOSED\<rparr>]\<rparr>)"
    by blast
  then have e: "emitted (sock_close 0 1006 reopened) = emitted reopened \<and>
                timers (sock_close 0 1006 reopened) = []"
    by (simp add: reopened_eq)
  have a': "0 < length (sockets superseded)" by (simp add: superseded_eq)
  have b': "socket superseded \<noteq> Some 0" by (simp add: superseded_eq)
  have c': "\<not> isConnected superseded" by (simp add: superseded_eq isConnected_def cur_def)
  have d': "readyState (sockets superseded ! 0) \<noteq> CLOSED" by (simp add: superseded_eq)
  have n: "(1006::nat) \<noteq> 1000 \<and> (1006::nat) \<noteq> 1005 \<and> (1006::nat) \<noteq> 4001" by simp
  from stale_callbacks [OF superseded_run a' b', of 1006] c' d' n
  have e': "emitted (sock_close 0 1006 superseded) = emitted superseded @ [EvDisconnect 1006] \<and>
            timers (sock_close 0 1006 superseded) \<noteq> []"
    by blast
  from reopened_run a b c d e a' b' c' d' e' show ?thesis by blast
qed

subsection \<open>The reconnect timer\<close>

lemma reconnect_fields:
  "timers (snd (reconnect s)) = timers s"
  "reconnectTimerHandle (snd (reconnect s)) = reconnectTimerHandle s"
  "next_timer (snd (reconnect s)) = next_timer s"
  by (auto simp: reconnect_def connection_def ws_new_def ws_close_def Let_def
      split: option.splits prod.splits)

lemma clearRetry_timers:
  "timer_inv s \<Longrightarrow> timers (clearRetry s) = [] \<and> reconnectTimerHandle (clearRetry s) = None"
  by (auto simp: timer_inv_def clearRetry_def clearTimeout_def split: option.splits)

lemma timer_fire_timers:
  "timers s = [(t, d)] \<Longrightarrow> timers (timer_fire t s) = [] \<and> reconnectTimerHandle (timer_fire t s) = None"
  by (simp add: timer_fire_def reconnect_fields clearTimeout_def)

lemma timer_fire_not_pending: "timers s = [] \<Longrightarrow> timer_fire t s = s"
  by (simp add: timer_fire_def)

text \<open>
  C2. In every reachable state, when the close event of the current socket arrives:
  for the codes 1000, 1005 and 4001 the pending timeouts and the handle are what they
  were; for any other code exactly one timeout is pending afterwards, set for 2500 ms,
  and the handle is its handle. That timeout fires once (after it fired nothing is
  pending, and firing it again does nothing), and once \<open>clearRetry\<close> has run it
  does not fire at all.
\<close>

theorem close_code_policy:
  assumes "s = run mk (fresh h) evs" and "socket s = Some k"
      and "readyState (sockets s ! k) \<noteq> CLOSED"
  shows "(code = 1000 \<or> code = 1005 \<or> code = 4001 \<longrightarrow>
            timers (sock_close k code s) = timers s \<and>
            reconnectTimerHandle (sock_close k code s) = reconnectTimerHandle s) \<and>
         (code \<noteq> 1000 \<and> code \<noteq> 1005 \<and> code \<noteq> 4001 \<longrightarrow>
            (\<exists>t. t \<noteq> 0 \<and>
                 timers (sock_close k code s) = [(t, 2500)] \<and>
                 reconnectTimerHandle (sock_close k code s) = Some t \<and>
                 timers (timer_fire t (sock_close k code s)) = [] \<and>
                 timer_fire t (timer_fire t (sock_close k code s))
                   = timer_fire t (sock_close k code s) \<and>
                 timers (clearRetry (sock_close k code s)) = [] \<and>
                 timer_fire t (clearRetry (sock_close k code s))
                   = clearRetry (sock_close k code s)))"
proof -
  have inv: "sock_inv s" "timer_inv s"
    using assms(1) reachable_invs by simp_all
  have k: "k < length (sockets s)"
    using inv(1) assms(2) by (simp add: sock_inv_def)
  let ?s' = "s\<lparr>sockets := upd_at k (\<lambda>w. w\<lparr>readyState := CLOSED\<rparr>) (sockets s)\<rparr>"
  have sc: "sock_close k code s = onclose code ?s'"
    using k assms(3) by (simp add: sock_close_def)
  have n: "\<not> isConnected ?s'"
    using k assms(2) by (simp add: isConnected_def cur_def upd_at_def)
  have ti: "timer_inv ?s'"
    using inv(2) by (simp add: timer_inv_def split: option.splits)
  have 1: "timers (sock_close k code s) = timers s \<and>
           reconnectTimerHandle (sock_close k code s) = reconnectTimerHandle s"
    if "code = 1000 \<or> code = 1005 \<or> code = 4001"
    using that by (auto simp: sc onclose_not_connected [OF n])
  have 2: "\<exists>t. t \<noteq> 0 \<and>
                 timers (sock_close k code s) = [(t, 2500)] \<and>
                 reconnectTimerHandle (sock_close k code s) = Some t \<and>
                 timers (timer_fire t (sock_close k code s)) = [] \<and>
                 timer_fire t (timer_fire t (sock_close k code s))
                   = timer_fire t (sock_close k code s) \<and>
                 timers (clearRetry (sock_close k code s)) = [] \<and>
                 timer_fire t (clearRetry (sock_close k code s))
                   = clearRetry (sock_close k code s)"
    if r: "code \<noteq> 1000 \<and> code \<noteq> 1005 \<and> code \<noteq> 4001"
  proof -
    from setup_timers [OF ti] obtain t where t: "t \<noteq> 0"
      "timers (setupReconnection RECONNECT_INTERVAL ?s') = [(t, RECONNECT_INTERVAL)]"
      "reconnectTimerHandle (setupReconnection RECONNECT_INTERVAL ?s') = Some t"
      by blast
    have a: "timers (sock_close k code s) = [(t, 2500)]"
      using r t by (simp add: sc onclose_not_connected [OF n] RECONNECT_INTERVAL_def)
    have b: "reconnectTimerHandle (sock_close k code s) = Some t"
      using r t by (simp add: sc onclose_not_connected [OF n])
    have "timer_inv (step mk s (SockClose k code))"
      using inv(2) by (rule timer_inv_step)
    then have ti2: "timer_inv (sock_close k code s)" by simp
    have c: "timers (timer_fire t (sock_close k code s)) = []"
      using timer_fire_timers [OF a] by simp
    have d: "timers (clearRetry (sock_close k code s)) = []"
      using clearRetry_timers [OF ti2] by simp
    from t(1) a b c d timer_fire_not_pending [OF c] timer_fire_not_pending [OF d]
    show ?thesis by blast
  qed
  from 1 2 show ?thesis by blast
qed

lemma retry_pending_eq:
  "retry_pending = \<lparr>host = ''ws://chat.example'', trackers = [], reconnectTimerHandle = Some 1,
     socket = Some 0, url = Some ''ws://chat.example//app'',
     sockets = [\<lparr>ws_url = ''ws://chat.example//app'', readyState = CLOSED, written = []\<rparr>],
     timers = [(1, 2500)], next_timer = 2, emitted = [EvDisconnect 1006], warned = []\<rparr>"
  by (simp add: retry_pending_def connect_def fresh_def isConnected_def cur_def
      connection_def ws_new_def serialise_app serialise_other sock_close_def onclose_def socket_not_open_def
      upd_at_def setupReconnection_def truthy_def setTimeout_def notify_all_def
      RECONNECT_INTERVAL_def Let_def)

lemma connecting_run:
  "snd (connect ''/app'' (fresh ''ws://chat.example''))
     = run both_names (fresh ''ws://chat.example'') [Connect ''/app'']"
  by (simp add: run_def)

lemma connecting_eq:
  "snd (connect ''/app'' (fresh ''ws://chat.example'')) =
   \<lparr>host = ''ws://chat.example'', trackers = [], reconnectTimerHandle = None,
     socket = Some 0, url = Some ''ws://chat.example//app'',
     sockets = [\<lparr>ws_url = ''ws://chat.example//app'', readyState = CONNECTING, written = []\<rparr>],
     timers = [], next_timer = 1, emitted = [], warned = []\<rparr>"
  by (simp add: connect_def fresh_def isConnected_def cur_def
      connection_def ws_new_def serialise_app serialise_other Let_def)

theorem close_code_policy_witness:
  "socket (snd (connect ''/app'' (fresh ''ws://chat.example''))) = Some 0 \<and>
   readyState (sockets (snd (connect ''/app'' (fresh ''ws://chat.example''))) ! 0) \<noteq> CLOSED \<and>
   timers (sock_close 0 1000 (snd (connect ''/app'' (fresh ''ws://chat.example'')))) = [] \<and>
   timers retry_pending = [(1, 2500)] \<and>
   timers (timer_fire 1 retry_pending) = [] \<and>
   timer_fire 1 (clearRetry retry_pending) = clearRetry retry_pending"
proof -
  let ?s = "snd (connect ''/app'' (fresh ''ws://chat.example''))"
  have a: "socket ?s = Some 0" by (simp add: connecting_eq)
  have b: "readyState (sockets ?s ! 0) \<noteq> CLOSED" by (simp add: connecting_eq)
  have t0: "timers ?s = []" by (simp add: connecting_eq)
  from close_code_policy [OF connecting_run a b, of 1000] t0
  have c: "timers (sock_close 0 1000 ?s) = []" by simp
  have d: "timers retry_pending = [(1, 2500)]" by (simp add: retry_pending_eq)
  from close_code_policy [OF connecting_run a b, of 1006]
  obtain t where t: "timers (sock_close 0 1006 ?s) = [(t, 2500)]"
      "timers (timer_fire t (sock_close 0 1006 ?s)) = []"
      "timer_fire t (clearRetry (sock_close 0 1006 ?s)) = clearRetry (sock_close 0 1006 ?s)"
    by auto
  from t(1) d have "t = 1" by (simp add: retry_pending_def)
  with t have e: "timers (timer_fire 1 retry_pending) = []"
      "timer_fire 1 (clearRetry retry_pending) = clearRetry retry_pending"
    by (simp_all add: retry_pending_def)
  from a b c d e show ?thesis by blast
qed

lemma setup_noop: "timer_inv s \<Longrightarrow> timers s \<noteq> [] \<Longrightarrow> setupReconnection i s = s"
  by (auto simp: timer_inv_def setupReconnection_def truthy_def split: option.splits)

lemma timer_inv_length: "timer_inv s \<Longrightarrow> length (timers s) \<le> 1"
  by (auto simp: timer_inv_def split: option.splits)

lemma onopen_timers:
  "timer_inv s \<Longrightarrow> timers (onopen s) = [] \<and> reconnectTimerHandle (onopen s) = None"
  using clearRetry_timers [of s] by (simp add: onopen_def Let_def)

lemma close_timers:
  assumes "timer_inv s"
  shows "timers (close s) = [] \<and> reconnectTimerHandle (close s) = None"
proof -
  have "timer_inv ((case socket s of None \<Rightarrow> s | Some k \<Rightarrow> ws_close k s)\<lparr>socket := None\<rparr>)"
    using assms by (auto simp: timer_inv_def ws_close_def split: option.splits)
  then show ?thesis
    unfolding close_def Let_def by (rule clearRetry_timers)
qed

lemma sock_open_timers:
  assumes "timer_inv s" and "k < length (sockets s)" and "readyState (sockets s ! k) = CONNECTING"
  shows "timers (sock_open k s) = [] \<and> reconnectTimerHandle (sock_open k s) = None"
proof -
  have "timer_inv (s\<lparr>sockets := upd_at k (\<lambda>w. w\<lparr>readyState := OPEN\<rparr>) (sockets s)\<rparr>)"
    using assms(1) by (auto simp: timer_inv_def split: option.splits)
  then show ?thesis
    using assms(2,3) by (simp add: sock_open_def onopen_timers)
qed

text \<open>
  C3, amended. In every reachable state at most one timeout is pending; while one is
  pending \<open>setupReconnection\<close> changes nothing; the open event of a connecting socket
  and \<^verbatim>\<open>close()\<close> both leave no timeout pending and no handle. \<^verbatim>\<open>reconnect()\<close>
  does not touch the timer: what was pending before it is pending after it.
\<close>

theorem single_reconnect_timer:
  assumes "s = run mk (fresh h) evs"
  shows "length (timers s) \<le> 1 \<and>
         (timers s \<noteq> [] \<longrightarrow> setupReconnection i s = s) \<and>
         (k < length (sockets s) \<and> readyState (sockets s ! k) = CONNECTING \<longrightarrow>
            timers (sock_open k s) = [] \<and> reconnectTimerHandle (sock_open k s) = None) \<and>
         timers (close s) = [] \<and> reconnectTimerHandle (close s) = None \<and>
         timers (snd (reconnect s)) = timers s \<and>
         reconnectTimerHandle (snd (reconnect s)) = reconnectTimerHandle s"
proof -
  have ti: "timer_inv s"
    using assms reachable_invs by simp
  show ?thesis
    using timer_inv_length [OF ti] setup_noop [OF ti] sock_open_timers [OF ti]
      close_timers [OF ti] reconnect_fields(1,2) [of s]
    by blast
qed

lemma retry_pending_run:
  "retry_pending = run both_names (fresh ''ws://chat.example'') [Connect ''/app'', SockClose 0 1006]"
  by (simp add: run_def retry_pending_def)

text \<open>
  C3, as stated, fails on \<^verbatim>\<open>reconnect()\<close>. After \<^verbatim>\<open>connect("/app")\<close> and a failed
  connection (close code 1006) a timeout is pending. \<^verbatim>\<open>reconnect()\<close> returns
  \<open>True\<close> and constructs a second socket, and the timeout is still pending.
\<close>

theorem reconnect_keeps_timer_counterexample:
  "timers retry_pending = [(1, 2500)] \<and>
   fst (reconnect retry_pending) = True \<and>
   length (sockets (snd (reconnect retry_pending))) = 2 \<and>
   timers (snd (reconnect retry_pending)) = [(1, 2500)] \<and>
   reconnectTimerHandle (snd (reconnect retry_pending)) = Some 1"
  by (simp add: retry_pending_eq reconnect_def cur_def connection_def ws_new_def serialise_app serialise_other ws_close_def
      upd_at_def Let_def)

theorem single_reconnect_timer_witness:
  "retry_pending = run both_names (fresh ''ws://chat.example'')
                     [Connect ''/app'', SockClose 0 1006] \<and>
   timers retry_pending \<noteq> [] \<and> length (timers retry_pending) \<le> 1 \<and>
   setupReconnection 2500 retry_pending = retry_pending \<and>
   timers (close retry_pending) = [] \<and>
   0 < length (sockets (snd (connect ''/app'' (fresh ''ws://chat.example'')))) \<and>
   readyState (sockets (snd (connect ''/app'' (fresh ''ws://chat.example''))) ! 0)
     = CONNECTING \<and>
   timers (sock_open 0 (snd (connect ''/app'' (fresh ''ws://chat.example'')))) = []"
proof -
  let ?c = "snd (connect ''/app'' (fresh ''ws://chat.example''))"
  have a: "timers retry_pending \<noteq> []" by (simp add: retry_pending_eq)
  from single_reconnect_timer [OF retry_pending_run, of 2500 0] a
  have b: "length (timers retry_pending) \<le> 1 \<and>
           setupReconnection 2500 retry_pending = retry_pending \<and>
           timers (close retry_pending) = []"
    by blast
  have c: "0 < length (sockets ?c) \<and> readyState (sockets ?c ! 0) = CONNECTING"
    by (simp add: connecting_eq)
  from single_reconnect_timer [OF connecting_run, of 2500 0] c
  have d: "timers (sock_open 0 ?c) = []"
    by blast
  from retry_pending_run a b c d show ?thesis by blast
qed

subsection \<open>Clearing the path\<close>

lemma idle_step:
  assumes "url s = None" and "socket s = None" and "\<not> is_connect ev"
  shows "url (step mk s ev) = None \<and> socket (step mk s ev) = None \<and>
         length (sockets (step mk s ev)) = length (sockets s)"
proof (cases ev)
  case (SockMessage k now e)
  then show ?thesis using assms by (simp add: sock_message_def parse_fields)
next
  case (Send d)
  then show ?thesis using assms by (simp add: send_fields)
next
  case (Connect p)
  then show ?thesis using assms by simp
qed (use assms in \<open>auto simp: prim_defs Let_def split: option.splits if_splits prod.splits\<close>)

lemma idle_run:
  assumes "url s = None" and "socket s = None" and "\<forall>ev \<in> set evs. \<not> is_connect ev"
  shows "url (run mk s evs) = None \<and> socket (run mk s evs) = None \<and>
         length (sockets (run mk s evs)) = length (sockets s)"
  using assms unfolding run_def
proof (induction evs arbitrary: s)
  case Nil
  then show ?case by simp
next
  case (Cons ev evs)
  from idle_step [of s ev mk] Cons.prems
  have st: "url (step mk s ev) = None" "socket (step mk s ev) = None"
    "length (sockets (step mk s ev)) = length (sockets s)" by simp_all
  from Cons.IH [OF st(1,2)] Cons.prems(3) st(3) show ?case by simp
qed

lemma clearPath_fields:
  "url (clearPath s) = None"
  "socket (clearPath s) = None"
  "timers (clearPath s) = timers s"
  "reconnectTimerHandle (clearPath s) = reconnectTimerHandle s"
  "length (sockets (clearPath s)) = length (sockets s)"
  by (auto simp: clearPath_def ws_close_def upd_at_def Let_def split: option.splits)

lemma clearPath_closes:
  "socket s = Some k \<Longrightarrow> k < length (sockets s) \<Longrightarrow>
     readyState (sockets (clearPath s) ! k) = CLOSING \<or>
     readyState (sockets (clearPath s) ! k) = CLOSED"
  by (auto simp: clearPath_def ws_close_def upd_at_def Let_def)

text \<open>
  C8, amended. \<open>clearPath\<close> sets \<open>url\<close> and \<open>socket\<close> to \<^verbatim>\<open>null\<close> after calling
  \<^verbatim>\<open>close()\<close> on the socket there was. It does not touch the timer: a timeout
  pending before it is pending after it. Whatever happens next, short of a call of
  \<^verbatim>\<open>connect\<close> (socket events, a timer firing, \<^verbatim>\<open>reconnect()\<close>, ...), no socket is
  constructed and \<open>url\<close> and \<open>socket\<close> stay \<^verbatim>\<open>null\<close>.
\<close>

theorem clearPath_idle:
  "url (clearPath s) = None \<and> socket (clearPath s) = None \<and>
   (socket s = Some k \<and> k < length (sockets s) \<longrightarrow>
      readyState (sockets (clearPath s) ! k) = CLOSING \<or>
      readyState (sockets (clearPath s) ! k) = CLOSED) \<and>
   timers (clearPath s) = timers s \<and>
   reconnectTimerHandle (clearPath s) = reconnectTimerHandle s \<and>
   ((\<forall>ev \<in> set evs. \<not> is_connect ev) \<longrightarrow>
      length (sockets (run mk (clearPath s) evs)) = length (sockets s) \<and>
      url (run mk (clearPath s) evs) = None \<and>
      socket (run mk (clearPath s) evs) = None)"
  using idle_run [of "clearPath s" evs mk] clearPath_closes [of s k]
  by (simp add: clearPath_fields)

text \<open>
  C8, as stated, fails on "no retry is armed". After \<^verbatim>\<open>connect("/app")\<close> and a failed
  connection (close code 1006) a timeout is pending; after \<open>clearPath\<close> it still is.
\<close>

theorem clearPath_timer_counterexample:
  "timers (clearPath retry_pending) = [(1, 2500)] \<and>
   reconnectTimerHandle (clearPath retry_pending) = Some 1 \<and>
   url (clearPath retry_pending) = None \<and> socket (clearPath retry_pending) = None"
  by (simp add: retry_pending_eq clearPath_def ws_close_def upd_at_def Let_def)

theorem clearPath_idle_witness:
  "socket open_on_app = Some 0 \<and> 0 < length (sockets open_on_app) \<and>
   \<not> is_connect (SockClose 0 1006) \<and> \<not> is_connect (TimerFire 1) \<and>
   \<not> is_connect Reconnect \<and>
   url (clearPath open_on_app) = None \<and>
   readyState (sockets (clearPath open_on_app) ! 0) = CLOSING \<and>
   length (sockets (run both_names (clearPath open_on_app)
                      [SockClose 0 1006, TimerFire 1, Reconnect])) = 1"
proof -
  have a: "socket open_on_app = Some 0 \<and> 0 < length (sockets open_on_app)"
    by (simp add: open_on_app_eq)
  have b: "\<forall>ev \<in> set [SockClose 0 1006, TimerFire 1, Reconnect]. \<not> is_connect ev"
    by simp
  have c: "readyState (sockets (clearPath open_on_app) ! 0) = CLOSING"
    by (simp add: open_on_app_eq clearPath_def ws_close_def upd_at_def Let_def)
  have d: "length (sockets open_on_app) = 1" by (simp add: open_on_app_eq)
  from clearPath_idle [of open_on_app 0 "[SockClose 0 1006, TimerFire 1, Reconnect]" both_names]
    a b c d show ?thesis by simp
qed

subsection \<open>Timestamp requests\<close>

lemma opened_then_closed_eq:
  "opened_then_closed = \<lparr>host = ''ws://chat.example'', trackers = [],
     reconnectTimerHandle = None, socket = None, url = Some ''ws://chat.example//app'',
     sockets = [\<lparr>ws_url = ''ws://chat.example//app'', readyState = CLOSING, written = []\<rparr>],
     timers = [], next_timer = 1, emitted = [EvConnect], warned = []\<rparr>"
  by (simp add: opened_then_closed_def open_on_app_eq close_def ws_close_def upd_at_def
      clearRetry_def Let_def)

text \<open>
  C7, as stated, fails where the client is not connected. After \<^verbatim>\<open>connect("/app")\<close>,
  the open event and \<^verbatim>\<open>close()\<close>, the variable \<^verbatim>\<open>socket\<close> is \<^verbatim>\<open>null\<close> and the
  socket is closing. A timestamp request that still arrives on it is answered by
  \<^verbatim>\<open>client.send\<close>, which returns at its first test: no frame is written.
\<close>

theorem timestamp_not_sent_counterexample:
  "\<not> isConnected opened_then_closed \<and>
   readyState (sockets opened_then_closed ! 0) = CLOSING \<and>
   map written (sockets opened_then_closed) = [[]] \<and>
   map written (sockets (parse 1700000000000 (TrackerTimestampRequest ''room:1'')
                           opened_then_closed)) = [[]] \<and>
   map written (sockets (sock_message 0 1700000000000 (TrackerTimestampRequest ''room:1'')
                           opened_then_closed)) = [[]]"
  by (simp add: opened_then_closed_eq sock_message_def onTrackerTimestamp_def send_def
      isConnected_def cur_def)

text \<open>
  C7, amended. A decoded \<^verbatim>\<open>TrackerTimestampRequest\<close> for \<open>T\<close> never reaches a tracker:
  the list of trackers is as it was. While the client is connected, exactly one frame
  is written, to the current socket and after what was written before: the
  timestamp response for \<open>T\<close> with the time of the call; nothing else changes. While
  it is not connected, \<^verbatim>\<open>send\<close> drops the frame and the state is as it was.
\<close>

theorem timestamp_request_answered:
  "trackers (parse now (TrackerTimestampRequest T) s) = trackers s \<and>
   (isConnected s \<longrightarrow>
      (\<exists>k. socket s = Some k \<and> k < length (sockets s) \<and>
           parse now (TrackerTimestampRequest T) s =
             s\<lparr>sockets := (sockets s)
                  [k := (sockets s ! k)\<lparr>written := written (sockets s ! k) @
                                                     [PKT_TRACKER_TIMESTAMP T now]\<rparr>]\<rparr>)) \<and>
   (\<not> isConnected s \<longrightarrow> parse now (TrackerTimestampRequest T) s = s)"
proof (intro conjI impI)
  show "trackers (parse now (TrackerTimestampRequest T) s) = trackers s"
    by (simp add: onTrackerTimestamp_def send_fields)
next
  assume c: "isConnected s"
  then obtain k where k: "socket s = Some k" "k < length (sockets s)"
    "readyState (sockets s ! k) = OPEN"
    by (auto simp: isConnected_def cur_def split: option.splits if_splits)
  then have "parse now (TrackerTimestampRequest T) s =
             s\<lparr>sockets := (sockets s)
                  [k := (sockets s ! k)\<lparr>written := written (sockets s ! k) @
                                                     [PKT_TRACKER_TIMESTAMP T now]\<rparr>]\<rparr>"
    using c by (simp add: onTrackerTimestamp_def send_def ws_send_def upd_at_def)
  with k show "\<exists>k. socket s = Some k \<and> k < length (sockets s) \<and>
           parse now (TrackerTimestampRequest T) s =
             s\<lparr>sockets := (sockets s)
                  [k := (sockets s ! k)\<lparr>written := written (sockets s ! k) @
                                                     [PKT_TRACKER_TIMESTAMP T now]\<rparr>]\<rparr>"
    by blast
next
  assume "\<not> isConnected s"
  then show "parse now (TrackerTimestampRequest T) s = s"
    by (simp add: onTrackerTimestamp_def send_def)
qed

theorem timestamp_request_answered_witness:
  "isConnected open_on_app \<and>
   map written (sockets (parse 1700000000000 (TrackerTimestampRequest ''room:1'') open_on_app))
     = [[PKT_TRACKER_TIMESTAMP ''room:1'' 1700000000000]] \<and>
   \<not> isConnected opened_then_closed \<and>
   parse 1700000000000 (TrackerTimestampRequest ''room:1'') opened_then_closed
     = opened_then_closed"
proof -
  have c: "isConnected open_on_app"
    by (simp add: open_on_app_eq isConnected_def cur_def)
  from timestamp_request_answered [of 1700000000000 "''room:1''" open_on_app] c
  obtain k where k: "socket open_on_app = Some k"
    "parse 1700000000000 (TrackerTimestampRequest ''room:1'') open_on_app =
       open_on_app\<lparr>sockets := (sockets open_on_app)
          [k := (sockets open_on_app ! k)\<lparr>written := written (sockets open_on_app ! k) @
                  [PKT_TRACKER_TIMESTAMP ''room:1'' 1700000000000]\<rparr>]\<rparr>"
    by blast
  from k(1) have "k = 0" by (simp add: open_on_app_eq)
  with k(2) have w: "map written (sockets (parse 1700000000000
        (TrackerTimestampRequest ''room:1'') open_on_app))
     = [[PKT_TRACKER_TIMESTAMP ''room:1'' 1700000000000]]"
    by (simp add: open_on_app_eq)
  have n: "\<not> isConnected opened_then_closed"
    by (simp add: opened_then_closed_eq isConnected_def cur_def)
  from timestamp_request_answered [of 1700000000000 "''room:1''" opened_then_closed] n
  have d: "parse 1700000000000 (TrackerTimestampRequest ''room:1'') opened_then_closed
             = opened_then_closed"
    by blast
  from c w n d show ?thesis by blast
qed

section \<open>Registering an identifier twice\<close>



















text \<open>
  The proviso on the constructor is needed: the test in \<open>createTracker\<close> reads
  \<^verbatim>\<open>trackerId\<close>, and with a constructor that stores the identifier as \<^verbatim>\<open>group\<close>
  only it finds nothing, so a second tracker for the same identifier is registered.
\<close>

lemma duplicate_accepted_without_trackerId:
  "fst (createTracker group_only ''room:1'' 5 []
          (snd (createTracker group_only ''room:1'' 0 [] (fresh h))))
     = Inr (group_only 5 ''room:1'' []) \<and>
   length (trackers (snd (createTracker group_only ''room:1'' 5 []
          (snd (createTracker group_only ''room:1'' 0 [] (fresh h)))))) = 2"
  by (simp add: createTracker_def group_only_def fresh_def Let_def)

section \<open>Joining a room of the demo\<close>

text \<open>
  A name that \<^verbatim>\<open>ROOMS[room]\<close> does not find at all is refused before anything but the
  console is touched.
\<close>

lemma join_unknown_room:
  assumes "session_user c = Some u" and "get_prop (ROOMS c) room = None"
  shows "join room c =
           (Inl (UnknownRoom room),
            c\<lparr>logged := logged c @ [''JOIN '' @ room @ '' '' @ user_name u @ ''/'' @ user_id u]\<rparr>)"
  using assms by (simp add: join_def getMembers_def Let_def)

text \<open>
  C10 fails on the code for a name that \<^verbatim>\<open>ROOMS\<close> inherits. \<^verbatim>\<open>"constructor"\<close> is
  not one of the rooms, but \<^verbatim>\<open>ROOMS["constructor"]\<close> is \<^verbatim>\<open>Object\<close>, which passes
  the test of \<open>getMembers\<close>. \<open>join\<close> then dispatches \<^verbatim>\<open>ADD_MEMBER\<close> on the
  channel of that name and subscribes the session to it, and only the \<^verbatim>\<open>push\<close> that
  follows throws, a TypeError and not "Unknown room".
\<close>

theorem join_inherited_name:
  "map_of (ROOMS lobby) ''constructor'' = None \<and>
   fst (join ''constructor'' lobby) = Inl (TypeError ''ROOMS[room].push is not a function'') \<and>
   channel_dispatched (snd (join ''constructor'' lobby))
     = [(''constructor'', ADD_MEMBER \<lparr>user_id = ''7'', user_name = ''ada''\<rparr>)] \<and>
   subscribed (snd (join ''constructor'' lobby)) = [''constructor''] \<and>
   channel_dispatched lobby = [] \<and> subscribed lobby = []"
  by (simp add: lobby_def ROOMS0_def join_def getMembers_def get_prop_def Object_prototype_def
      Let_def)

end
